theory Spec2Isabelle
  imports Main
begin

section \<open>The build configuration \<^verbatim>\<open>wgrib2/config.h\<close>\<close>

text \<open>
  The repository's one source file is
  \<^verbatim>\<open>mrms-proxy-server/tools/grib2/wgrib2/config.h\<close>: twenty-five lines, each a
  comment or an object-like \<^verbatim>\<open>#define\<close>. The file is embedded as it stands,
  one string per line, and the macros it defines are computed from that text by a model
  of the part of the C preprocessor the file exercises: comment removal (block and
  line comments, string literals left alone) and the \<^verbatim>\<open>#define\<close> directive.
\<close>

subsection \<open>The file\<close>

definition config_h :: "string list" where
  \<open>config_h =
    [''/* config.h */'',
     ''#define USE_REGEX'',
     ''#define USE_TIGGE'',
     ''//#define DISABLE_ALARM'',
     ''//#define DISABLE_STAT'',
     ''#define USE_NAMES NCEP'',
     ''//#define USE_UDF'',
     ''#define IPOLATES_LIB "ip2lib_d"'',
     ''#define USE_IPOLATES 3'',
     ''#define USE_OPENMP'',
     ''#define MAKE_SHARED_LIB'',
     ''#define CPPFLAGS " -I/Users/antoniomartinez/Desktop/d2d-sales-tracker/mrms-proxy-server/tools/grib2/include -Wall -Wmissing-prototypes -Wold-style-definition -Werror=format-security -O3 -DGFORTRAN -fopenmp -fPIC -g"'',
     ''#define FFLAGS " -c -O3 -fopenmp -fPIC -g"'',
     ''//#define USE_G2CLIB'',
     ''#define USE_PROJ4'',
     ''#define USE_OPENJPEG "openjpeg-2.5.0.tar.gz"'',
     ''#define USE_AEC "libaec-1.0.6.tar.gz"'',
     ''#define USE_SPECTRAL 1'',
     ''#define USE_NETCDF3'',
     ''//#define USE_MYSQL'',
     ''#define CC "gcc-15 (Homebrew GCC 15.1.0) 15.1.0"'',
     ''#define FORTRAN "GNU Fortran (Homebrew GCC 15.1.0) 15.1.0"'',
     ''#define BUILD_COMMENTS "stock build"'',
     ''#define USE_PNG'',
     ''//#define WMO_VALIDATION'']\<close>

subsection \<open>The preprocessor on such a file\<close>

text \<open>
  Comments are removed before directives are read: a block comment becomes one space,
  a line comment ends the line, and neither starts inside a string literal (where a
  backslash escapes the next character). The scanner works on one line at a time, which
  is all this header needs: no comment and no literal of it runs over a line end, and
  it has no line continuation, no \<^verbatim>\<open>#undef\<close> and no macro with parameters.
\<close>

datatype lex_state = InCode | InString | InComment

fun strip_comments :: "lex_state \<Rightarrow> string \<Rightarrow> string" where
  "strip_comments st [] = []"
| "strip_comments InCode [c] = [c]"
| "strip_comments InCode (c # d # cs) =
     (if c = CHR ''/'' \<and> d = CHR ''/'' then []
      else if c = CHR ''/'' \<and> d = CHR ''*'' then CHR '' '' # strip_comments InComment cs
      else if c = CHR 0x22 then c # strip_comments InString (d # cs)
      else c # strip_comments InCode (d # cs))"
| "strip_comments InString [c] = [c]"
| "strip_comments InString (c # d # cs) =
     (if c = CHR 0x5C then c # d # strip_comments InString cs
      else if c = CHR 0x22 then c # strip_comments InCode (d # cs)
      else c # strip_comments InString (d # cs))"
| "strip_comments InComment [c] = []"
| "strip_comments InComment (c # d # cs) =
     (if c = CHR ''*'' \<and> d = CHR ''/'' then strip_comments InCode cs
      else strip_comments InComment (d # cs))"

definition is_space :: "char \<Rightarrow> bool" where
  "is_space c = (c = CHR '' '' \<or> c = CHR 0x09)"

definition is_ident_char :: "char \<Rightarrow> bool" where
  "is_ident_char c =
     (let n = (of_char c :: nat)
      in (65 \<le> n \<and> n \<le> 90) \<or> (97 \<le> n \<and> n \<le> 122) \<or> (48 \<le> n \<and> n \<le> 57) \<or> n = 95)"

definition trim :: "string \<Rightarrow> string" where
  "trim s = rev (dropWhile is_space (rev (dropWhile is_space s)))"

text \<open>
  A directive line is \<^verbatim>\<open>#\<close>, the directive's name, and its operands, with
  white space allowed before and after the \<^verbatim>\<open>#\<close>. For
  \<^verbatim>\<open>#define\<close> the operands are the macro's name and its replacement text
  (possibly empty), which is kept as written.
\<close>

definition parse_define :: "string \<Rightarrow> (string \<times> string) option" where
  "parse_define l =
     (let s = dropWhile is_space (strip_comments InCode l)
      in if take 1 s = ''#'' then
           (let d = dropWhile is_space (drop 1 s)
            in if takeWhile is_ident_char d = ''define'' then
                 (let r = dropWhile is_space (dropWhile is_ident_char d);
                      name = takeWhile is_ident_char r
                  in if name = [] then None
                     else Some (name, trim (dropWhile is_ident_char r)))
               else None)
         else None)"

definition macros :: "string list \<Rightarrow> (string \<times> string) list" where
  "macros cfg = List.map_filter parse_define cfg"

definition macro_value :: "string list \<Rightarrow> string \<Rightarrow> string option" where
  "macro_value cfg n = map_of (macros cfg) n"

subsection \<open>Conditional inclusion\<close>

text \<open>What \<^verbatim>\<open>#ifdef n\<close> tests.\<close>

definition defined :: "string list \<Rightarrow> string \<Rightarrow> bool" where
  "defined cfg n = (macro_value cfg n \<noteq> None)"

subsection \<open>The names defined\<close>

definition flags :: "string list \<Rightarrow> string list" where
  "flags cfg = map fst (macros cfg)"

text \<open>The feature switches among them: the names that start with \<^verbatim>\<open>USE_\<close>.\<close>

definition use_flags :: "string list \<Rightarrow> string list" where
  "use_flags cfg = filter (\<lambda>n. take 4 n = ''USE_'') (flags cfg)"

section \<open>What the flags stand for\<close>

text \<open>
  The subsystems a flag can gate are the ones the specification lists: a compression
  codec (the Codec Registry knows five), the interpolation library, spectral support,
  projection support.
\<close>

datatype codec = SimplePacking | ComplexPacking | JPEG2000 | PNG | AEC

datatype subsystem =
  CompressionCodec codec | InterpolationLibrary | SpectralSupport | ProjectionSupport

definition all_subsystems :: "subsystem list" where
  "all_subsystems =
     [CompressionCodec SimplePacking, CompressionCodec ComplexPacking,
      CompressionCodec JPEG2000, CompressionCodec PNG, CompressionCodec AEC,
      InterpolationLibrary, SpectralSupport, ProjectionSupport]"

text \<open>
  The sources that test the macros are not part of the repository, so what a macro
  gates is a parameter: a pairing \<open>g\<close> of macro names with subsystems. Under \<open>g\<close>, a
  flag among \<open>fs\<close> gates a subsystem of its own when \<open>g\<close> gives it one and gives
  that one to no other entry of \<open>fs\<close>. "Every flag gates a distinct subsystem" says
  that all of \<open>fs\<close> do.
\<close>

definition gates_own_subsystem ::
  "(string \<Rightarrow> subsystem option) \<Rightarrow> string list \<Rightarrow> string \<Rightarrow> bool" where
  "gates_own_subsystem g fs n =
     (g n \<noteq> None \<and> length (filter (\<lambda>m. g m = g n) fs) = 1)"

definition every_flag_gates_distinct_subsystem ::
  "(string \<Rightarrow> subsystem option) \<Rightarrow> string list \<Rightarrow> bool" where
  "every_flag_gates_distinct_subsystem g fs = list_all (gates_own_subsystem g fs) fs"

text \<open>
  The failures a decode or a resample can report, by the names of the specification's
  taxonomy (section 7).
\<close>

datatype error =
  FormatError | UnsupportedTemplate | UnsupportedCodec | UnsupportedProjection
  | DecodeError | IncompatibleGrid | OutOfBounds

section \<open>Decoding and resampling in a build\<close>

text \<open>
  Modelled from the spec: the sources that test the switches are not part of the
  repository. Which switch turns which subsystem on is read off the switches' names,
  as the specification's list of flags has them (compression codecs, interpolation
  library, spectral support, projection support): OpenJPEG is the JPEG2000 codec,
  libaec the CCSDS/AEC codec, IPOLATES the interpolation library, PROJ.4 the
  projection library. Simple and complex packing have no switch. A subsystem is
  compiled in when it has no switch or its switch is defined.
\<close>

fun subsystem_switch :: "subsystem \<Rightarrow> string option" where
  "subsystem_switch (CompressionCodec JPEG2000) = Some ''USE_OPENJPEG''"
| "subsystem_switch (CompressionCodec AEC) = Some ''USE_AEC''"
| "subsystem_switch (CompressionCodec PNG) = Some ''USE_PNG''"
| "subsystem_switch (CompressionCodec SimplePacking) = None"
| "subsystem_switch (CompressionCodec ComplexPacking) = None"
| "subsystem_switch InterpolationLibrary = Some ''USE_IPOLATES''"
| "subsystem_switch SpectralSupport = Some ''USE_SPECTRAL''"
| "subsystem_switch ProjectionSupport = Some ''USE_PROJ4''"

definition compiled_in :: "string list \<Rightarrow> subsystem \<Rightarrow> bool" where
  "compiled_in cfg s = (case subsystem_switch s of None \<Rightarrow> True | Some n \<Rightarrow> defined cfg n)"

text \<open>
  Modelled from the spec: the Codec Registry (section 4.3) is not part of the
  repository's sources. It is "populated at startup from whichever codec
  implementations are linked in" (section 9), so it holds the handler of a codec
  exactly when the build compiles the codec in. The handlers themselves (OpenJPEG,
  libaec, libpng and the two packings) are a parameter.
\<close>

definition registry :: "string list \<Rightarrow> (codec \<Rightarrow> 'h) \<Rightarrow> codec \<Rightarrow> 'h option" where
  "registry cfg handlers c =
     (if compiled_in cfg (CompressionCodec c) then Some (handlers c) else None)"

text \<open>
  Modelled from the spec: a codec that runs "returns a numeric field of exactly
  pointCount values or fails with DecodeError" (section 4.3); a codec "that ran but
  produced the wrong count" is such a failure. A handler gives the values it
  recovered, or nothing.
\<close>

definition run_codec ::
  "('d \<Rightarrow> 'p \<Rightarrow> nat \<Rightarrow> 'v list option) \<Rightarrow> 'd \<Rightarrow> 'p \<Rightarrow> nat \<Rightarrow> error + 'v list" where
  "run_codec h dataSection params pointCount =
     (case h dataSection params pointCount of
        None \<Rightarrow> Inl DecodeError
      | Some vs \<Rightarrow> if length vs = pointCount then Inr vs else Inl DecodeError)"

text \<open>
  Modelled from the spec: decode (section 4.3) "fails with UnsupportedCodec if the
  registry has no handler" for the codec the Data Representation template selects, and
  otherwise runs the handler.
\<close>

definition decode ::
  "string list \<Rightarrow> (codec \<Rightarrow> 'd \<Rightarrow> 'p \<Rightarrow> nat \<Rightarrow> 'v list option) \<Rightarrow> codec \<Rightarrow> 'd \<Rightarrow> 'p \<Rightarrow> nat
     \<Rightarrow> error + 'v list" where
  "decode cfg handlers c dataSection params pointCount =
     (case registry cfg handlers c of
        None \<Rightarrow> Inl UnsupportedCodec
      | Some h \<Rightarrow> run_codec h dataSection params pointCount)"

datatype interp_method = Bilinear | NearestNeighbor | Budget | Spectral

text \<open>
  Modelled from the spec: the Interpolation Engine (section 4.5) is not part of the
  repository's sources. Every method runs in the interpolation library; the spectral
  method also goes through the Spectral Transform, the optional subsystem of
  section 2.
\<close>

definition method_needs :: "interp_method \<Rightarrow> subsystem list" where
  "method_needs m =
     InterpolationLibrary # (case m of Spectral \<Rightarrow> [SpectralSupport] | _ \<Rightarrow> [])"

text \<open>
  A resample fails either for want of a subsystem (the first one of those the method
  needs that the build lacks) or with a failure of the engine's own, such as
  IncompatibleGrid.
\<close>

datatype resample_failure = SubsystemAbsent subsystem | Failed error

text \<open>
  Modelled from the spec: resample (section 4.5) with the engine's methods as a
  parameter. The specification names no failure for a method whose subsystem the
  build lacks; it is kept apart from the engine's failures here.
\<close>

definition resample ::
  "string list \<Rightarrow> (interp_method \<Rightarrow> 'f \<Rightarrow> 'g \<Rightarrow> 'r \<Rightarrow> error + 'f) \<Rightarrow> interp_method
     \<Rightarrow> 'f \<Rightarrow> 'g \<Rightarrow> 'r \<Rightarrow> resample_failure + 'f" where
  "resample cfg engine m field sourceGrid request =
     (case filter (\<lambda>s. \<not> compiled_in cfg s) (method_needs m) of
        s # _ \<Rightarrow> Inl (SubsystemAbsent s)
      | [] \<Rightarrow> (case engine m field sourceGrid request of
                 Inl e \<Rightarrow> Inl (Failed e)
               | Inr out \<Rightarrow> Inr out))"

section \<open>The macros of \<^verbatim>\<open>config.h\<close>\<close>

text \<open>
  Running the preprocessor model over the file gives eighteen macros; the six
  \<^verbatim>\<open>//#define\<close> lines and the heading comment define nothing.
\<close>

lemma macros_config_h:
  \<open>macros config_h =
    [(''USE_REGEX'', ''''),
     (''USE_TIGGE'', ''''),
     (''USE_NAMES'', ''NCEP''),
     (''IPOLATES_LIB'', ''"ip2lib_d"''),
     (''USE_IPOLATES'', ''3''),
     (''USE_OPENMP'', ''''),
     (''MAKE_SHARED_LIB'', ''''),
     (''CPPFLAGS'', ''" -I/Users/antoniomartinez/Desktop/d2d-sales-tracker/mrms-proxy-server/tools/grib2/include -Wall -Wmissing-prototypes -Wold-style-definition -Werror=format-security -O3 -DGFORTRAN -fopenmp -fPIC -g"''),
     (''FFLAGS'', ''" -c -O3 -fopenmp -fPIC -g"''),
     (''USE_PROJ4'', ''''),
     (''USE_OPENJPEG'', ''"openjpeg-2.5.0.tar.gz"''),
     (''USE_AEC'', ''"libaec-1.0.6.tar.gz"''),
     (''USE_SPECTRAL'', ''1''),
     (''USE_NETCDF3'', ''''),
     (''CC'', ''"gcc-15 (Homebrew GCC 15.1.0) 15.1.0"''),
     (''FORTRAN'', ''"GNU Fortran (Homebrew GCC 15.1.0) 15.1.0"''),
     (''BUILD_COMMENTS'', ''"stock build"''),
     (''USE_PNG'', '''')]\<close>
  by code_simp

lemma flags_config_h:
  "flags config_h =
     [''USE_REGEX'', ''USE_TIGGE'', ''USE_NAMES'', ''IPOLATES_LIB'', ''USE_IPOLATES'',
      ''USE_OPENMP'', ''MAKE_SHARED_LIB'', ''CPPFLAGS'', ''FFLAGS'', ''USE_PROJ4'',
      ''USE_OPENJPEG'', ''USE_AEC'', ''USE_SPECTRAL'', ''USE_NETCDF3'', ''CC'', ''FORTRAN'',
      ''BUILD_COMMENTS'', ''USE_PNG'']"
  by (simp add: flags_def macros_config_h)

text \<open>No name is defined twice, so looking a macro up finds its one definition.\<close>

lemma distinct_flags_config_h: "distinct (flags config_h)"
  by (simp add: flags_config_h)

lemma use_flags_config_h:
  "use_flags config_h =
     [''USE_REGEX'', ''USE_TIGGE'', ''USE_NAMES'', ''USE_IPOLATES'', ''USE_OPENMP'',
      ''USE_PROJ4'', ''USE_OPENJPEG'', ''USE_AEC'', ''USE_SPECTRAL'', ''USE_NETCDF3'',
      ''USE_PNG'']"
  by (simp add: use_flags_def flags_config_h)

text \<open>
  The scanner on lines the header does not have: white space around the
  \<^verbatim>\<open>#\<close>, comments after and before a directive, a line comment inside a string
  literal, and lines that are no \<^verbatim>\<open>#define\<close>.
\<close>

lemma macros_examples:
  \<open>macros [''  #  define  X   a b  // c'',
            ''/* a */ #define Y "//" /* z */'',
            ''#defineZ'', ''#define'', ''#undef X'', ''//#define X''] =
     [(''X'', ''a b''), (''Y'', ''"//"'')]\<close>
  by code_simp

text \<open>In general, a line that opens with a line comment defines nothing.\<close>

lemma line_comment_defines_nothing: "parse_define (CHR ''/'' # CHR ''/'' # s) = None"
  by (simp add: parse_define_def)

section \<open>Flags and subsystems\<close>

lemma subsystem_listed: "s \<in> set all_subsystems"
proof (cases s)
  case (CompressionCodec c)
  then show ?thesis by (cases c) (simp_all add: all_subsystems_def)
qed (simp_all add: all_subsystems_def)

text \<open>
  If no value of \<open>f\<close> is taken twice along a list, mapping \<open>f\<close> over it gives a
  list without repetitions; so it does over the entries whose value occurs once.
\<close>

lemma distinct_map_if_single:
  "(\<And>y. length (filter (\<lambda>m. f m = y) zs) \<le> 1) \<Longrightarrow> distinct (map f zs)"
proof (induction zs)
  case Nil
  then show ?case by simp
next
  case (Cons z zs)
  have tail: "length (filter (\<lambda>m. f m = y) zs) \<le> 1" for y
    using Cons.prems [of y] by (simp split: if_splits)
  have "f z \<notin> f ` set zs"
  proof
    assume "f z \<in> f ` set zs"
    then obtain m where "m \<in> set zs" "f m = f z" by auto
    then have "filter (\<lambda>m. f m = f z) zs \<noteq> []"
      by (auto simp: filter_empty_conv)
    then have "0 < length (filter (\<lambda>m. f m = f z) zs)" by simp
    with Cons.prems [of "f z"] show False by simp
  qed
  with Cons.IH tail show ?case by simp
qed

lemma distinct_own:
  "distinct (map f (filter (\<lambda>n. P n \<and> length (filter (\<lambda>m. f m = f n) xs) = 1) xs))"
proof (rule distinct_map_if_single)
  fix y
  let ?Q = "\<lambda>n. P n \<and> length (filter (\<lambda>m. f m = f n) xs) = 1"
  show "length (filter (\<lambda>m. f m = y) (filter ?Q xs)) \<le> 1"
  proof (cases "\<exists>n \<in> set xs. ?Q n \<and> f n = y")
    case True
    then obtain n where n: "length (filter (\<lambda>m. f m = f n) xs) = 1" "f n = y" by auto
    have "length (filter (\<lambda>m. f m = y) (filter ?Q xs)) =
          length (filter ?Q (filter (\<lambda>m. f m = y) xs))"
      by (simp add: conj_commute)
    also have "\<dots> \<le> length (filter (\<lambda>m. f m = y) xs)" by (rule length_filter_le)
    finally show ?thesis using n by simp
  next
    case False
    then have "filter (\<lambda>m. f m = y) (filter ?Q xs) = []"
      by (auto simp: filter_empty_conv)
    then show ?thesis by simp
  qed
qed

text \<open>Eight subsystems: at most eight names can be paired with distinct ones.\<close>

lemma distinct_subsystems_bound:
  fixes g :: "'a \<Rightarrow> subsystem option"
  assumes "distinct (map g fs)" and "\<And>n. n \<in> set fs \<Longrightarrow> g n \<noteq> None"
  shows "length fs \<le> 8"
proof -
  have "set (map g fs) \<subseteq> set (map Some all_subsystems)"
  proof
    fix v assume "v \<in> set (map g fs)"
    then obtain n where "n \<in> set fs" "v = g n" by auto
    with assms(2) obtain s where "v = Some s" by fastforce
    then show "v \<in> set (map Some all_subsystems)" using subsystem_listed by simp
  qed
  then have "card (set (map g fs)) \<le> card (set (map Some all_subsystems))"
    by (intro card_mono) simp_all
  also have "\<dots> \<le> length (map Some all_subsystems)" by (rule card_length)
  also have "\<dots> = 8" by (simp add: all_subsystems_def)
  finally have "card (set (map g fs)) \<le> 8" .
  moreover have "card (set (map g fs)) = length (map g fs)"
    using assms(1) by (rule distinct_card)
  ultimately show ?thesis by simp
qed

lemma own_subsystem_bound:
  "length (filter (gates_own_subsystem g fs) fs) \<le> 8"
proof (rule distinct_subsystems_bound [where g = g])
  show "distinct (map g (filter (gates_own_subsystem g fs) fs))"
    unfolding gates_own_subsystem_def by (rule distinct_own)
qed (simp add: gates_own_subsystem_def)

lemma without_own_subsystem:
  "length fs - 8 \<le> length (filter (\<lambda>n. \<not> gates_own_subsystem g fs n) fs)"
  using own_subsystem_bound [of g fs] sum_length_filter_compl [of "gates_own_subsystem g fs" fs]
  by linarith

lemma more_than_eight_flags:
  assumes "8 < length fs"
  shows "\<not> (\<exists>g. every_flag_gates_distinct_subsystem g fs)"
proof
  assume "\<exists>g. every_flag_gates_distinct_subsystem g fs"
  then obtain g where "list_all (gates_own_subsystem g fs) fs"
    by (auto simp: every_flag_gates_distinct_subsystem_def)
  then have "filter (gates_own_subsystem g fs) fs = fs"
    by (simp add: list_all_iff)
  with own_subsystem_bound [of g fs] assms show False by simp
qed

text \<open>
  Claim C9, as stated: every compile-time flag of the configuration gates a distinct
  algorithmic subsystem (a compression codec, the interpolation library, spectral
  support or projection support), and no flag controls anything else. On
  \<^verbatim>\<open>config.h\<close> this fails whatever each macro is taken to gate: the file defines
  eighteen macros, eleven of them \<^verbatim>\<open>USE_\<close> switches, and there are eight such
  subsystems, so no pairing gives every macro a subsystem of its own, and none gives
  one to every \<^verbatim>\<open>USE_\<close> switch either.
\<close>

theorem c9_not_every_flag_gates_a_subsystem:
  "\<not> (\<exists>g. every_flag_gates_distinct_subsystem g (flags config_h))
   \<and> \<not> (\<exists>g. every_flag_gates_distinct_subsystem g (use_flags config_h))"
proof
  show "\<not> (\<exists>g. every_flag_gates_distinct_subsystem g (flags config_h))"
    by (rule more_than_eight_flags) (simp add: flags_config_h)
  show "\<not> (\<exists>g. every_flag_gates_distinct_subsystem g (use_flags config_h))"
    by (rule more_than_eight_flags) (simp add: use_flags_config_h)
qed

text \<open>
  Claim C9, amended: \<^verbatim>\<open>config.h\<close> defines the eighteen macros listed, eleven of
  them \<^verbatim>\<open>USE_\<close> switches. Whatever each is taken to gate, at most eight of the
  macros gate a subsystem of the kinds listed that no other macro gates; at least ten
  of the macros, and at least three of the \<^verbatim>\<open>USE_\<close> switches, gate no subsystem of
  their own.
\<close>

theorem c9_flags_of_config_h:
  "flags config_h =
     [''USE_REGEX'', ''USE_TIGGE'', ''USE_NAMES'', ''IPOLATES_LIB'', ''USE_IPOLATES'',
      ''USE_OPENMP'', ''MAKE_SHARED_LIB'', ''CPPFLAGS'', ''FFLAGS'', ''USE_PROJ4'',
      ''USE_OPENJPEG'', ''USE_AEC'', ''USE_SPECTRAL'', ''USE_NETCDF3'', ''CC'', ''FORTRAN'',
      ''BUILD_COMMENTS'', ''USE_PNG'']
   \<and> use_flags config_h =
     [''USE_REGEX'', ''USE_TIGGE'', ''USE_NAMES'', ''USE_IPOLATES'', ''USE_OPENMP'',
      ''USE_PROJ4'', ''USE_OPENJPEG'', ''USE_AEC'', ''USE_SPECTRAL'', ''USE_NETCDF3'',
      ''USE_PNG'']
   \<and> length (filter (gates_own_subsystem g (flags config_h)) (flags config_h)) \<le> 8
   \<and> 10 \<le> length (filter (\<lambda>n. \<not> gates_own_subsystem g (flags config_h) n) (flags config_h))
   \<and> 3 \<le> length (filter (\<lambda>n. \<not> gates_own_subsystem g (use_flags config_h) n)
                (use_flags config_h))"
proof -
  have "length (flags config_h) = 18" "length (use_flags config_h) = 11"
    by (simp_all add: flags_config_h use_flags_config_h)
  with without_own_subsystem [of "flags config_h" g]
    without_own_subsystem [of "use_flags config_h" g]
  have "10 \<le> length (filter (\<lambda>n. \<not> gates_own_subsystem g (flags config_h) n) (flags config_h))"
    and "3 \<le> length (filter (\<lambda>n. \<not> gates_own_subsystem g (use_flags config_h) n)
                  (use_flags config_h))"
    by simp_all
  with flags_config_h use_flags_config_h own_subsystem_bound [of g "flags config_h"]
  show ?thesis by blast
qed

section \<open>What this build compiles in\<close>





lemma decode_not_compiled_in:
  "\<not> compiled_in cfg (CompressionCodec c) \<Longrightarrow> decode cfg handlers c d p n = Inl UnsupportedCodec"
  by (simp add: decode_def registry_def)


text \<open>
  The outcome does depend on the build. The switches the header leaves commented out
  are not defined, and in a header that comments a codec's switch out the decode fails
  with UnsupportedCodec whatever the handler; without the spectral switch the spectral
  method fails for want of its subsystem, while the other methods run.
\<close>

lemma commented_out_config_h:
  "\<not> defined config_h ''USE_G2CLIB'' \<and> \<not> defined config_h ''USE_MYSQL''
   \<and> \<not> defined config_h ''USE_UDF'' \<and> \<not> defined config_h ''DISABLE_ALARM''
   \<and> \<not> defined config_h ''DISABLE_STAT'' \<and> \<not> defined config_h ''WMO_VALIDATION''"
  by (simp add: defined_def macro_value_def macros_config_h)

lemma decode_without_switch:
  "decode [''//#define USE_PNG''] handlers PNG d p n = Inl UnsupportedCodec"
  by (rule decode_not_compiled_in)
    (simp add: compiled_in_def defined_def macro_value_def macros_def parse_define_def)

lemma decode_with_switch:
  "decode [''#define USE_PNG''] (\<lambda>c d p n. Some (replicate n (0::int))) PNG d p 3 = Inr [0, 0, 0]"
  by code_simp

lemma resample_without_switch:
  "resample [''#define USE_IPOLATES 3'', ''//#define USE_SPECTRAL 1''] engine Spectral f g r =
     Inl (SubsystemAbsent SpectralSupport)"
  "resample [''#define USE_IPOLATES 3'', ''//#define USE_SPECTRAL 1''] (\<lambda>m f g r. Inr f)
     Bilinear f g r = Inr f"
  by (simp_all add: resample_def method_needs_def compiled_in_def defined_def macro_value_def
      macros_def parse_define_def is_space_def is_ident_char_def trim_def List.map_filter_def)


end
